theory Spec2Isabelle
  imports Complex_Main "HOL-Library.AList"
begin

section \<open>Values handled by \<open>download_era\<close>\<close>

text \<open>
  The development embeds \<^verbatim>\<open>src/phase_o_matic/download.py\<close>, whose single function
  \<^verbatim>\<open>download_era\<close> validates its arguments, builds a request for the climate data
  store, derives the output path and asks the \<^verbatim>\<open>cdsapi\<close> client for the file unless it
  is already there.

  A Python float is a value of a type \<open>'f\<close> of which nothing is assumed. The operations
  that the function applies to floats (subtraction, addition, absolute value, maximum,
  minimum, comparison, \<^verbatim>\<open>str\<close> and the two-decimal format) are fields of the
  \<open>platform\<close>, so that every theorem holds of double precision as it is, with its
  rounding, its signed zeros and its formatting. The \<^verbatim>\<open>pathlib\<close> and \<^verbatim>\<open>strftime\<close>
  operations are modelled by the functions of this section; the operating system, the
  clock, the date parser and the \<^verbatim>\<open>cdsapi\<close> client are parameters too (\<open>platform\<close> and
  \<open>world\<close> below).
\<close>

subsection \<open>Decimal rendering of integers\<close>

definition digit_char :: "nat \<Rightarrow> char" where
  "digit_char d = ''0123456789'' ! (d mod 10)"

fun str_nat :: "nat \<Rightarrow> string" where
  "str_nat n = (if n < 10 then [digit_char n] else str_nat (n div 10) @ [digit_char (n mod 10)])"

declare str_nat.simps [simp del]

text \<open>Zero padding on the left to a minimal width, as \<^verbatim>\<open>%m\<close>, \<^verbatim>\<open>%d\<close>, \<^verbatim>\<open>%H\<close> do.\<close>

definition zpad :: "nat \<Rightarrow> string \<Rightarrow> string" where
  "zpad k s = replicate (k - length s) (CHR ''0'') @ s"

text \<open>\<^verbatim>\<open>sep.join(xs)\<close> on strings.\<close>

fun join :: "string \<Rightarrow> string list \<Rightarrow> string" where
  "join sep [] = []"
| "join sep [x] = x"
| "join sep (x # y # ys) = x @ sep @ join sep (y # ys)"

subsection \<open>Timestamps\<close>

text \<open>
  A \<^verbatim>\<open>pd.Timestamp\<close> by its calendar fields. Time zones are not modelled: the source
  compares with \<^verbatim>\<open>datetime.now(date.tzinfo)\<close>, the current moment in the timestamp's own
  zone, which for a naive timestamp is the comparison of the fields below.
\<close>

record timestamp =
  year :: nat
  month :: nat
  day :: nat
  hour :: nat
  minute :: nat
  second :: nat
  nanosecond :: nat

text \<open>\<^verbatim>\<open>a < b\<close> on timestamps: lexicographic on the fields.\<close>

definition ts_key :: "timestamp \<Rightarrow> nat list" where
  "ts_key t = [year t, month t, day t, hour t, minute t, second t, nanosecond t]"

fun lex_less :: "nat list \<Rightarrow> nat list \<Rightarrow> bool" where
  "lex_less (x # xs) (y # ys) = (x < y \<or> (x = y \<and> lex_less xs ys))"
| "lex_less _ _ = False"

definition ts_less :: "timestamp \<Rightarrow> timestamp \<Rightarrow> bool" where
  "ts_less a b = lex_less (ts_key a) (ts_key b)"

text \<open>
  The three \<^verbatim>\<open>strftime\<close> formats of the source. \<^verbatim>\<open>%Y\<close> is the year in decimal (four
  digits over the whole range of \<^verbatim>\<open>pd.Timestamp\<close>, 1677 to 2262); \<^verbatim>\<open>%m\<close>, \<^verbatim>\<open>%d\<close> and
  \<^verbatim>\<open>%H\<close> are zero-padded to two digits.
\<close>

definition strftime_Ymd :: "timestamp \<Rightarrow> string" where
  "strftime_Ymd t =
     zpad 4 (str_nat (year t)) @ ''-'' @ zpad 2 (str_nat (month t)) @ ''-'' @ zpad 2 (str_nat (day t))"

definition strftime_H00 :: "timestamp \<Rightarrow> string" where
  "strftime_H00 t = zpad 2 (str_nat (hour t)) @ '':00''"

definition strftime_YmdTH00 :: "timestamp \<Rightarrow> string" where
  "strftime_YmdTH00 t = strftime_Ymd t @ ''T'' @ strftime_H00 t"

subsection \<open>Paths\<close>

text \<open>
  A \<^verbatim>\<open>pathlib.Path\<close> by its parts. \<open>suffix\<close>, \<open>stem\<close>, \<open>with_name\<close> and \<open>with_stem\<close>
  follow \<^verbatim>\<open>pathlib\<close>: the suffix starts at the last dot of the final component, unless
  that dot is its first or its last character.
\<close>

datatype path = Path (parts: "string list")

definition joinpath :: "path \<Rightarrow> string \<Rightarrow> path" where
  "joinpath p n = Path (parts p @ [n])"

definition name :: "path \<Rightarrow> string" where
  "name p = (case parts p of [] \<Rightarrow> '''' | _ \<Rightarrow> last (parts p))"

definition after_last_dot :: "string \<Rightarrow> string" where
  "after_last_dot n = rev (takeWhile (\<lambda>c. c \<noteq> CHR ''.'') (rev n))"

definition has_suffix :: "string \<Rightarrow> bool" where
  "has_suffix n \<longleftrightarrow>
     CHR ''.'' \<in> set n \<and> after_last_dot n \<noteq> [] \<and> length (after_last_dot n) + 1 < length n"

definition suffix :: "path \<Rightarrow> string" where
  "suffix p = (if has_suffix (name p) then CHR ''.'' # after_last_dot (name p) else '''')"

definition stem :: "path \<Rightarrow> string" where
  "stem p =
     (if has_suffix (name p)
      then take (length (name p) - length (after_last_dot (name p)) - 1) (name p)
      else name p)"

definition with_name :: "path \<Rightarrow> string \<Rightarrow> path" where
  "with_name p n = Path (butlast (parts p) @ [n])"

definition with_stem :: "path \<Rightarrow> string \<Rightarrow> path" where
  "with_stem p s = with_name p (s @ suffix p)"

text \<open>\<^verbatim>\<open>str(path)\<close> of an absolute POSIX path.\<close>

definition path_str :: "path \<Rightarrow> string" where
  "path_str p =
     (case parts p of
        [] \<Rightarrow> ''.''
      | r # ps \<Rightarrow> if r = ''/'' then ''/'' @ join ''/'' ps else join ''/'' (r # ps))"

subsection \<open>Subset geometry\<close>

text \<open>
  A \<^verbatim>\<open>shapely\<close> polygon by the two attributes that the function reads: \<^verbatim>\<open>is_empty\<close>, and
  \<^verbatim>\<open>bounds\<close>, the tuple \<^verbatim>\<open>(minx, miny, maxx, maxy)\<close> of floats. A polygon is falsy exactly
  when it is empty.
\<close>

record 'f polygon =
  is_empty :: bool
  bounds :: "'f \<times> 'f \<times> 'f \<times> 'f"

text \<open>The truth value of the \<^verbatim>\<open>subset\<close> argument: \<^verbatim>\<open>None\<close> and the empty polygon are falsy.\<close>

definition truthy :: "'f polygon option \<Rightarrow> bool" where
  "truthy subs = (case subs of None \<Rightarrow> False | Some g \<Rightarrow> \<not> is_empty g)"

subsection \<open>Requests, errors, the world\<close>

datatype pyval = Str string | StrList "string list"

type_synonym pydict = "(string \<times> pyval) list"

text \<open>
  The exceptions that leave \<open>download_era\<close>: a failed \<^verbatim>\<open>assert\<close> with its message,
  whatever the constructor of the client raises (\<open>ClientError\<close>, with its message), a date
  string that \<^verbatim>\<open>pd.to_datetime\<close> rejects, and whatever the retrieval raises
  (\<open>RetrievalError\<close>, with its message). The function lets the last three through.
\<close>

datatype error =
  AssertionError string | ClientError string | DateParseError | RetrievalError string

datatype date_arg = DateStr string | DateTs timestamp

datatype event = ClientCreated | Retrieve string pydict path

text \<open>
  The world the call runs in: the paths that exist, the current moment, and the calls that
  the \<^verbatim>\<open>cdsapi\<close> library has answered so far, oldest first.
\<close>

record world =
  existing :: "path set"
  now :: timestamp
  events :: "event list"

text \<open>
  What the model takes from outside the repository:
  \<^item> \<open>cdsapirc\<close>: \<^verbatim>\<open>Path('~/.cdsapirc').expanduser()\<close>;
  \<^item> \<open>client_init\<close>: the message of the exception that \<^verbatim>\<open>cdsapi.Client()\<close> raises, for
    instance on a credentials file that is there but incomplete; \<open>None\<close> when it returns
    a client;
  \<^item> \<open>resolve\<close>: \<^verbatim>\<open>Path(out_dir).expanduser().resolve()\<close>;
  \<^item> \<open>to_datetime\<close>: \<^verbatim>\<open>pd.to_datetime\<close> on a string, \<open>None\<close> when it raises;
  \<^item> \<open>retrieve\<close>: the effect of \<^verbatim>\<open>Client.retrieve\<close> on the file system, with the
    message of the exception it raises, if any;
  \<^item> \<open>float_of_int\<close>: the float that an \<^verbatim>\<open>int\<close> becomes next to a float (the constants
    \<^verbatim>\<open>-180\<close>, \<^verbatim>\<open>180\<close>, \<^verbatim>\<open>-90\<close>, \<^verbatim>\<open>90\<close>);
  \<^item> \<open>float_less\<close>: \<^verbatim>\<open>a < b\<close>; \<open>float_sub\<close>: \<^verbatim>\<open>a - b\<close>; \<open>float_add\<close>: \<^verbatim>\<open>a + b\<close>;
    \<open>float_abs\<close>: \<^verbatim>\<open>abs(a)\<close>; \<open>float_max\<close>: \<^verbatim>\<open>np.maximum(a, b)\<close>; \<open>float_min\<close>:
    \<^verbatim>\<open>np.minimum(a, b)\<close>;
  \<^item> \<open>float_str\<close>: \<^verbatim>\<open>str(a)\<close>; \<open>format_2f\<close>: \<^verbatim>\<open>f'{a:.2f}'\<close>.
\<close>

record 'f platform =
  cdsapirc :: path
  client_init :: "string option"
  resolve :: "path \<Rightarrow> path"
  to_datetime :: "string \<Rightarrow> timestamp option"
  retrieve :: "string \<Rightarrow> pydict \<Rightarrow> path \<Rightarrow> path set \<Rightarrow> string option \<times> path set"
  float_of_int :: "int \<Rightarrow> 'f"
  float_less :: "'f \<Rightarrow> 'f \<Rightarrow> bool"
  float_sub :: "'f \<Rightarrow> 'f \<Rightarrow> 'f"
  float_add :: "'f \<Rightarrow> 'f \<Rightarrow> 'f"
  float_abs :: "'f \<Rightarrow> 'f"
  float_max :: "'f \<Rightarrow> 'f \<Rightarrow> 'f"
  float_min :: "'f \<Rightarrow> 'f \<Rightarrow> 'f"
  float_str :: "'f \<Rightarrow> string"
  format_2f :: "'f \<Rightarrow> string"

section \<open>The function \<open>download_era\<close>\<close>

text \<open>Lines 38 to 40: the pressure levels, in millibars.\<close>

definition era_pressure_lvls :: "string list" where
  "era_pressure_lvls =
     [''1'', ''2'', ''3'', ''5'', ''7'', ''10'', ''20'', ''30'', ''50'', ''70'', ''100'', ''125'',
      ''150'', ''175'', ''200'', ''225'', ''250'', ''300'', ''350'', ''400'', ''450'', ''500'', ''550'', ''600'', ''650'',
      ''700'', ''750'', ''775'', ''800'', ''825'', ''850'', ''875'', ''900'', ''925'', ''950'', ''975'', ''1000'']"

text \<open>
  Lines 73 to 76: the four assignments run in sequence, so the second reads the \<open>w\<close> the
  first has just stored, and the fourth the \<open>s\<close> the third has stored.
\<close>

definition expand_los :: "'f platform \<Rightarrow> 'f \<times> 'f \<times> 'f \<times> 'f \<Rightarrow> 'f \<times> 'f \<times> 'f \<times> 'f" where
  "expand_los pl b =
     (case b of (w, s, e, n) \<Rightarrow>
        let w' = float_max pl (float_sub pl w (float_abs pl (float_sub pl e w))) (float_of_int pl (- 180));
            e' = float_min pl (float_add pl e (float_abs pl (float_sub pl e w'))) (float_of_int pl 180);
            s' = float_max pl (float_sub pl s (float_abs pl (float_sub pl n s))) (float_of_int pl (- 90));
            n' = float_min pl (float_add pl n (float_abs pl (float_sub pl n s'))) (float_of_int pl 90)
        in (w', s', e', n'))"

text \<open>
  Lines 66 to 69: the first assertion that fails, if any. \<^verbatim>\<open>w > -180\<close> is \<^verbatim>\<open>-180 < w\<close>.
\<close>

definition check_bounds :: "'f platform \<Rightarrow> 'f \<times> 'f \<times> 'f \<times> 'f \<Rightarrow> error option" where
  "check_bounds pl b =
     (case b of (w, s, e, n) \<Rightarrow>
        if \<not> (float_less pl (float_of_int pl (- 180)) w \<and> float_less pl w (float_of_int pl 180))
          then Some (AssertionError (''West bound: '' @ float_str pl w @ '' is outside of globe''))
        else if \<not> (float_less pl (float_of_int pl (- 180)) e \<and> float_less pl e (float_of_int pl 180))
          then Some (AssertionError (''East bound: '' @ float_str pl e @ '' is outside of globe''))
        else if \<not> (float_less pl (float_of_int pl (- 90)) n \<and> float_less pl n (float_of_int pl 90))
          then Some (AssertionError (''North bound: '' @ float_str pl n @ '' is outside of globe''))
        else if \<not> (float_less pl (float_of_int pl (- 90)) s \<and> float_less pl s (float_of_int pl 90))
          then Some (AssertionError (''South bound: '' @ float_str pl s @ '' is outside of globe''))
        else None)"

text \<open>Line 79: \<^verbatim>\<open>'/'.join([str(b) for b in [n, w, s, e]])\<close>.\<close>

definition area_str :: "'f platform \<Rightarrow> 'f \<times> 'f \<times> 'f \<times> 'f \<Rightarrow> string" where
  "area_str pl b = (case b of (w, s, e, n) \<Rightarrow> join ''/'' (map (float_str pl) [n, w, s, e]))"

text \<open>Line 82: \<^verbatim>\<open>'_'.join([f'{b:.2f}' for b in [w, s, e, n]])\<close>.\<close>

definition bounds_tag :: "'f platform \<Rightarrow> 'f \<times> 'f \<times> 'f \<times> 'f \<Rightarrow> string" where
  "bounds_tag pl b = (case b of (w, s, e, n) \<Rightarrow> join ''_'' (map (format_2f pl) [w, s, e, n]))"

text \<open>Lines 50 to 55.\<close>

definition base_indict :: "timestamp \<Rightarrow> string \<Rightarrow> pydict" where
  "base_indict d humid_param =
     [(''product_type'', Str ''reanalysis''),
      (''format'', Str ''netcdf''),
      (''variable'', StrList [''geopotential'', ''temperature'', humid_param]),
      (''pressure_level'', StrList era_pressure_lvls),
      (''date'', Str (strftime_Ymd d)),
      (''time'', Str (strftime_H00 d))]"

text \<open>
  The bounds that lines 79 and 82 read: the variables \<open>w, s, e, n\<close> of line 63, which
  lines 73 to 76 have overwritten when \<open>LOS\<close> is true.
\<close>

definition sent_bounds :: "'f platform \<Rightarrow> bool \<Rightarrow> 'f \<times> 'f \<times> 'f \<times> 'f \<Rightarrow> 'f \<times> 'f \<times> 'f \<times> 'f" where
  "sent_bounds pl LOS b = (if LOS then expand_los pl b else b)"

text \<open>Lines 61 to 82: the request and the output path after the subset block.\<close>

definition subset_block ::
  "'f platform \<Rightarrow> 'f polygon option \<Rightarrow> bool \<Rightarrow> pydict \<Rightarrow> path \<Rightarrow> error + pydict \<times> path" where
  "subset_block pl subs LOS indict out_fp =
     (if truthy subs then
        (let b = bounds (the subs) in
         case check_bounds pl b of
           Some err \<Rightarrow> Inl err
         | None \<Rightarrow>
             let b' = sent_bounds pl LOS b;
                 indict' = AList.update ''area'' (Str (area_str pl b')) indict;
                 out_fp' = with_stem out_fp (stem out_fp @ ''_'' @ bounds_tag pl b')
             in Inr (indict', out_fp'))
      else Inr (indict, out_fp))"

text \<open>Line 58: the file name before the subset block.\<close>

definition era_name :: "timestamp \<Rightarrow> string" where
  "era_name d = ''ERA5_'' @ strftime_YmdTH00 d @ ''.nc''"

text \<open>Line 43: a string is parsed, a timestamp is taken as it is.\<close>

definition as_timestamp :: "'f platform \<Rightarrow> date_arg \<Rightarrow> timestamp option" where
  "as_timestamp pl date = (case date of DateStr s \<Rightarrow> to_datetime pl s | DateTs t \<Rightarrow> Some t)"

text \<open>
  Line 86: \<^verbatim>\<open>c.retrieve(name, request, target)\<close>. The call is recorded, and the client
  does to the file system what the platform says.
\<close>

definition client_retrieve ::
  "'f platform \<Rightarrow> string \<Rightarrow> pydict \<Rightarrow> path \<Rightarrow> world \<Rightarrow> error option \<times> world" where
  "client_retrieve pl ds req target wld =
     (let r = retrieve pl ds req target (existing wld);
          wld' = wld\<lparr>existing := snd r\<rparr>
      in (map_option RetrievalError (fst r), wld'\<lparr>events := events wld @ [Retrieve ds req target]\<rparr>))"

text \<open>
  The whole function. It returns the exception or the path, and the world it leaves.
  \<open>out_dir\<close> is the directory after line 29 has made a \<^verbatim>\<open>Path\<close> of it. Line 26 either
  raises what the constructor of the client raises, or leaves a client, which the world
  records.
\<close>

definition download_era ::
  "'f platform \<Rightarrow> date_arg \<Rightarrow> path \<Rightarrow> 'f polygon option \<Rightarrow> string \<Rightarrow> bool \<Rightarrow> bool \<Rightarrow> world
     \<Rightarrow> (error + path) \<times> world" where
  "download_era pl date out_dir subs humid_param LOS overwrite wld =
     (if cdsapirc pl \<notin> existing wld
        then (Inl (AssertionError ''Must sign up for ERA5 account and save key to .cdsapric file''), wld)
      else
        (case client_init pl of
           Some msg \<Rightarrow> (Inl (ClientError msg), wld)
         | None \<Rightarrow>
            (let wld1 = wld\<lparr>events := events wld @ [ClientCreated]\<rparr>;
                 dir = resolve pl out_dir
             in
             if dir \<notin> existing wld1
               then (Inl (AssertionError (''Provided directory: '' @ path_str dir @ '' does not exist.'')), wld1)
             else
               (case as_timestamp pl date of
                  None \<Rightarrow> (Inl DateParseError, wld1)
                | Some d \<Rightarrow>
                    if \<not> ts_less d (now wld1)
                      then (Inl (AssertionError ''provided date is in the future''), wld1)
                    else if \<not> 1939 < year d
                      then (Inl (AssertionError ''provided date is before january 1940''), wld1)
                    else
                      (case subset_block pl subs LOS (base_indict d humid_param)
                             (joinpath dir (era_name d)) of
                         Inl err \<Rightarrow> (Inl err, wld1)
                       | Inr (indict, out_fp) \<Rightarrow>
                           if out_fp \<notin> existing wld1 \<or> overwrite then
                             (case client_retrieve pl ''reanalysis-era5-pressure-levels'' indict out_fp wld1 of
                                (Some err, wld2) \<Rightarrow> (Inl err, wld2)
                              | (None, wld2) \<Rightarrow> (Inr out_fp, wld2))
                           else (Inr out_fp, wld1))))))"

text \<open>
  The calls a run has made: the events of the world it leaves, without those that the
  world it started from already had.
\<close>

definition new_events :: "world \<Rightarrow> world \<Rightarrow> event list" where
  "new_events wld wld' = drop (length (events wld)) (events wld')"

section \<open>Example inputs\<close>

text \<open>
  The inputs at which the theorems below are evaluated. Their floats are whole numbers of
  small magnitude, on which double precision computes exactly; the example platform
  therefore takes the real numbers for floats, with exact arithmetic. \<open>two_decimals\<close> and
  \<open>float_repr\<close> stand for the two-decimal format and for \<^verbatim>\<open>str\<close> on such numbers only
  (\<^verbatim>\<open>f'{-30.0:.2f}' == '-30.00'\<close>, \<^verbatim>\<open>str(-30.0) == '-30.0'\<close>): they do not describe
  the formats on every double. The example client is built without error, writes the
  target file and raises nothing; the example parser knows one string.
\<close>

definition round_half_even :: "real \<Rightarrow> nat" where
  "round_half_even y =
     (let f = nat \<lfloor>y\<rfloor>; d = y - real f
      in if d < 1 / 2 then f else if 1 / 2 < d then f + 1 else if even f then f else f + 1)"

definition two_decimals :: "real \<Rightarrow> string" where
  "two_decimals x =
     (let h = round_half_even (\<bar>x\<bar> * 100)
      in (if x < 0 then ''-'' else '''') @ str_nat (h div 100) @ ''.'' @ zpad 2 (str_nat (h mod 100)))"

fun frac_digits :: "nat \<Rightarrow> real \<Rightarrow> string" where
  "frac_digits 0 f = []"
| "frac_digits (Suc k) f =
     (if f = 0 then []
      else digit_char (nat \<lfloor>f * 10\<rfloor>) # frac_digits k (f * 10 - real (nat \<lfloor>f * 10\<rfloor>)))"

definition float_repr :: "real \<Rightarrow> string" where
  "float_repr x =
     (let a = \<bar>x\<bar>; i = nat \<lfloor>a\<rfloor>; fr = frac_digits 17 (a - real i)
      in (if x < 0 then ''-'' else '''') @ str_nat i @ ''.'' @ (if fr = [] then ''0'' else fr))"

definition ex_rc :: path where
  "ex_rc = Path [''/'', ''home'', ''user'', ''.cdsapirc'']"

definition ex_dir :: path where
  "ex_dir = Path [''/'', ''data'']"

definition stamp :: "nat \<Rightarrow> nat \<Rightarrow> nat \<Rightarrow> nat \<Rightarrow> nat \<Rightarrow> timestamp" where
  "stamp y m d h mi =
     \<lparr>year = y, month = m, day = d, hour = h, minute = mi, second = 0, nanosecond = 0\<rparr>"

definition ex_date :: timestamp where
  "ex_date = stamp 2020 1 1 5 30"

definition ex_platform :: "real platform" where
  "ex_platform =
     \<lparr>cdsapirc = ex_rc, client_init = None, resolve = (\<lambda>p. p),
      to_datetime = (\<lambda>s. if s = ''2020-01-01 05:30'' then Some ex_date else None),
      retrieve = (\<lambda>ds req target fs. (None, insert target fs)),
      float_of_int = real_of_int, float_less = (<), float_sub = (-), float_add = (+),
      float_abs = abs, float_max = max, float_min = min,
      float_str = float_repr, format_2f = two_decimals\<rparr>"

text \<open>The same platform with a credentials file that the client refuses.\<close>

definition ex_platform_bad_rc :: "real platform" where
  "ex_platform_bad_rc = ex_platform\<lparr>client_init := Some ''Missing/incomplete configuration file''\<rparr>"

definition ex_world :: world where
  "ex_world = \<lparr>existing = {ex_rc, ex_dir}, now = stamp 2024 6 1 12 0, events = []\<rparr>"

text \<open>The dates around the start of the archive.\<close>

definition date_1939_12_31 :: timestamp where
  "date_1939_12_31 = stamp 1939 12 31 0 0"

definition date_1940_01_01 :: timestamp where
  "date_1940_01_01 = stamp 1940 1 1 0 0"

definition date_1940_01_02 :: timestamp where
  "date_1940_01_02 = stamp 1940 1 2 0 0"

text \<open>The subset of the specification's example: \<open>w = -10\<close>, \<open>s = -5\<close>, \<open>e = 10\<close>, \<open>n = 5\<close>.\<close>

definition ex_box :: "real polygon" where
  "ex_box = \<lparr>is_empty = False, bounds = (- 10, - 5, 10, 5)\<rparr>"

text \<open>Two subsets that touch the edge of the globe: east at 180, south at -90.\<close>

definition ex_box_east :: "real polygon" where
  "ex_box_east = \<lparr>is_empty = False, bounds = (170, 10, 180, 20)\<rparr>"

definition ex_box_south :: "real polygon" where
  "ex_box_south = \<lparr>is_empty = False, bounds = (0, - 90, 10, - 80)\<rparr>"

text \<open>An empty polygon. The function never reads the bounds of a falsy subset.\<close>

definition ex_empty :: "real polygon" where
  "ex_empty = \<lparr>is_empty = True, bounds = (0, 0, 0, 0)\<rparr>"

text \<open>The example world without the credentials file, and without the directory.\<close>

definition ex_world_no_rc :: world where
  "ex_world_no_rc = \<lparr>existing = {ex_dir}, now = stamp 2024 6 1 12 0, events = []\<rparr>"

definition ex_world_no_dir :: world where
  "ex_world_no_dir = \<lparr>existing = {ex_rc}, now = stamp 2024 6 1 12 0, events = []\<rparr>"

section \<open>Facts about the library functions\<close>

lemma name_joinpath: "name (joinpath p n) = n"
  by (cases "parts p") (simp_all add: name_def joinpath_def)

lemma digit_char_in: "digit_char d \<in> set ''0123456789''"
  unfolding digit_char_def by (rule nth_mem) simp

lemma str_nat_chars: "set (str_nat n) \<subseteq> set ''0123456789''"
proof (induction n rule: str_nat.induct)
  case (1 n)
  show ?case
  proof (cases "n < 10")
    case True
    then show ?thesis using digit_char_in [of n] by (subst str_nat.simps) simp
  next
    case False
    then show ?thesis using 1 digit_char_in [of "n mod 10"] by (subst str_nat.simps) simp
  qed
qed

lemma zpad_chars: "set (zpad k s) \<subseteq> insert (CHR ''0'') (set s)"
  by (auto simp: zpad_def)

lemma no_dot_padded: "CHR ''.'' \<notin> set (zpad k (str_nat n))"
  using zpad_chars [of k "str_nat n"] str_nat_chars [of n] by auto

lemma no_dot_stamp: "CHR ''.'' \<notin> set (strftime_YmdTH00 d)"
  by (simp add: strftime_YmdTH00_def strftime_Ymd_def strftime_H00_def no_dot_padded)

lemma after_last_dot_append:
  assumes "CHR ''.'' \<notin> set e"
  shows "after_last_dot (s @ CHR ''.'' # e) = e"
proof -
  have "takeWhile (\<lambda>c. c \<noteq> CHR ''.'') (rev e @ CHR ''.'' # rev s) =
        rev e @ takeWhile (\<lambda>c. c \<noteq> CHR ''.'') (CHR ''.'' # rev s)"
    by (rule takeWhile_append2) (use assms in auto)
  then show ?thesis by (simp add: after_last_dot_def)
qed

lemma stem_dotted:
  assumes "CHR ''.'' \<notin> set e" "e \<noteq> []" "s \<noteq> []"
  shows "stem (joinpath p (s @ CHR ''.'' # e)) = s"
    and "suffix (joinpath p (s @ CHR ''.'' # e)) = CHR ''.'' # e"
  using assms
  by (simp_all add: stem_def suffix_def has_suffix_def name_joinpath after_last_dot_append)

lemma stem_era: "stem (joinpath dir (era_name d)) = ''ERA5_'' @ strftime_YmdTH00 d"
  using stem_dotted(1) [of "''nc''" "''ERA5_'' @ strftime_YmdTH00 d" dir]
  by (simp add: era_name_def no_dot_stamp)

lemma suffix_era: "suffix (joinpath dir (era_name d)) = ''.nc''"
  using stem_dotted(2) [of "''nc''" "''ERA5_'' @ strftime_YmdTH00 d" dir]
  by (simp add: era_name_def no_dot_stamp)

lemma with_stem_era:
  "with_stem (joinpath dir (era_name d)) (stem (joinpath dir (era_name d)) @ x) =
   joinpath dir (''ERA5_'' @ strftime_YmdTH00 d @ x @ ''.nc'')"
  by (simp add: with_stem_def with_name_def stem_era suffix_era) (simp add: joinpath_def)

text \<open>Rewrite rules that render a numeral.\<close>

lemma str_nat_digit: "n < 10 \<Longrightarrow> str_nat n = [digit_char n]"
  by (subst str_nat.simps) simp

lemma str_nat_step: "10 \<le> n \<Longrightarrow> str_nat n = str_nat (n div 10) @ [digit_char (n mod 10)]"
  by (subst str_nat.simps) simp

lemmas render = str_nat_digit str_nat_step digit_char_def zpad_def

section \<open>Facts about \<open>download_era\<close>\<close>

lemma subset_block_falsy:
  "\<not> truthy subs \<Longrightarrow> subset_block pl subs LOS req fp = Inr (req, fp)"
  by (simp add: subset_block_def)

lemma update_area_base:
  "AList.update ''area'' v (base_indict d h) = base_indict d h @ [(''area'', v)]"
  by (simp add: base_indict_def)

lemma subset_block_truthy:
  assumes "truthy subs"
  shows "subset_block pl subs LOS (base_indict d h) (joinpath dir (era_name d)) =
     (case check_bounds pl (bounds (the subs)) of
        Some err \<Rightarrow> Inl err
      | None \<Rightarrow>
          Inr (base_indict d h @ [(''area'', Str (area_str pl (sent_bounds pl LOS (bounds (the subs)))))],
               joinpath dir (''ERA5_'' @ strftime_YmdTH00 d @ ''_'' @
                 bounds_tag pl (sent_bounds pl LOS (bounds (the subs))) @ ''.nc'')))"
  using assms with_stem_era [of dir d "''_'' @ bounds_tag pl (sent_bounds pl LOS (bounds (the subs)))"]
  by (simp add: subset_block_def Let_def update_area_base split: option.splits)

text \<open>When every check passes, the call is the cache decision of lines 85 to 90.\<close>

lemma download_era_run:
  assumes "cdsapirc pl \<in> existing wld" "client_init pl = None" "resolve pl out_dir \<in> existing wld"
    "as_timestamp pl date = Some d" "ts_less d (now wld)" "1939 < year d"
    "subset_block pl subs LOS (base_indict d h)
       (joinpath (resolve pl out_dir) (era_name d)) = Inr (req, fp)"
  shows "download_era pl date out_dir subs h LOS ow wld =
     (if fp \<notin> existing wld \<or> ow then
        (case fst (retrieve pl ''reanalysis-era5-pressure-levels'' req fp (existing wld)) of
           Some msg \<Rightarrow> Inl (RetrievalError msg) | None \<Rightarrow> Inr fp,
         wld\<lparr>existing := snd (retrieve pl ''reanalysis-era5-pressure-levels'' req fp (existing wld)),
             events := events wld @ [ClientCreated, Retrieve ''reanalysis-era5-pressure-levels'' req fp]\<rparr>)
      else (Inr fp, wld\<lparr>events := events wld @ [ClientCreated]\<rparr>))"
  unfolding download_era_def Let_def client_retrieve_def
  using assms by (simp split: option.splits)

text \<open>When a check fails, the call raises, having at most created the client.\<close>

lemma download_era_stop:
  assumes "\<not> (cdsapirc pl \<in> existing wld \<and> client_init pl = None \<and> resolve pl out_dir \<in> existing wld \<and>
     (\<exists>d. as_timestamp pl date = Some d \<and> ts_less d (now wld) \<and> 1939 < year d \<and>
        (\<exists>req fp. subset_block pl subs LOS (base_indict d h)
            (joinpath (resolve pl out_dir) (era_name d)) = Inr (req, fp))))"
  shows "isl (fst (download_era pl date out_dir subs h LOS ow wld)) \<and>
         existing (snd (download_era pl date out_dir subs h LOS ow wld)) = existing wld \<and>
         (new_events wld (snd (download_era pl date out_dir subs h LOS ow wld)) = [] \<or>
          new_events wld (snd (download_era pl date out_dir subs h LOS ow wld)) = [ClientCreated])"
proof (cases "cdsapirc pl \<in> existing wld \<and> client_init pl = None")
  case False
  then show ?thesis
    by (auto simp add: download_era_def new_events_def split: option.splits)
next
  case rc: True
  show ?thesis
  proof (cases "resolve pl out_dir \<in> existing wld")
    case False
    with rc show ?thesis by (simp add: download_era_def new_events_def Let_def)
  next
    case dir: True
    show ?thesis
    proof (cases "as_timestamp pl date")
      case None
      with rc dir show ?thesis by (simp add: download_era_def new_events_def Let_def)
    next
      case (Some d)
      show ?thesis
      proof (cases "ts_less d (now wld) \<and> 1939 < year d")
        case False
        with rc dir Some show ?thesis
          by (auto simp add: download_era_def new_events_def Let_def)
      next
        case True
        with assms rc dir Some
        have "\<forall>req fp. subset_block pl subs LOS (base_indict d h)
            (joinpath (resolve pl out_dir) (era_name d)) \<noteq> Inr (req, fp)"
          by simp
        then obtain err where "subset_block pl subs LOS (base_indict d h)
            (joinpath (resolve pl out_dir) (era_name d)) = Inl err"
          by (cases "subset_block pl subs LOS (base_indict d h)
            (joinpath (resolve pl out_dir) (era_name d))") auto
        with rc dir Some True show ?thesis
          by (simp add: download_era_def new_events_def Let_def)
      qed
    qed
  qed
qed

text \<open>What a returned path and a recorded retrieval say about the run.\<close>

lemma download_era_Inr_D:
  assumes "fst (download_era pl date out_dir subs h LOS ow wld) = Inr p"
  shows "\<exists>d req. cdsapirc pl \<in> existing wld \<and> client_init pl = None \<and> resolve pl out_dir \<in> existing wld \<and>
           as_timestamp pl date = Some d \<and> ts_less d (now wld) \<and> 1939 < year d \<and>
           subset_block pl subs LOS (base_indict d h)
             (joinpath (resolve pl out_dir) (era_name d)) = Inr (req, p)"
proof (rule ccontr)
  assume neg: "\<not> ?thesis"
  have "\<not> isl (fst (download_era pl date out_dir subs h LOS ow wld))"
    using assms by simp
  with download_era_stop [of pl wld out_dir date subs LOS h ow]
  obtain d req fp where ok: "cdsapirc pl \<in> existing wld" "client_init pl = None" "resolve pl out_dir \<in> existing wld"
      "as_timestamp pl date = Some d" "ts_less d (now wld)" "1939 < year d"
      "subset_block pl subs LOS (base_indict d h)
         (joinpath (resolve pl out_dir) (era_name d)) = Inr (req, fp)"
    by blast
  from assms have "p = fp"
    by (simp add: download_era_run [OF ok] split: if_splits option.splits)
  with ok neg show False by blast
qed

lemma retrieve_sent_D:
  assumes "Retrieve ds req fp \<in> set (new_events wld (snd (download_era pl date out_dir subs h LOS ow wld)))"
  shows "\<exists>d. cdsapirc pl \<in> existing wld \<and> client_init pl = None \<and> resolve pl out_dir \<in> existing wld \<and>
           as_timestamp pl date = Some d \<and> ts_less d (now wld) \<and> 1939 < year d \<and>
           subset_block pl subs LOS (base_indict d h)
             (joinpath (resolve pl out_dir) (era_name d)) = Inr (req, fp) \<and>
           ds = ''reanalysis-era5-pressure-levels'' \<and> (fp \<notin> existing wld \<or> ow)"
proof (rule ccontr)
  assume neg: "\<not> ?thesis"
  have "new_events wld (snd (download_era pl date out_dir subs h LOS ow wld)) \<noteq> []"
       "new_events wld (snd (download_era pl date out_dir subs h LOS ow wld)) \<noteq> [ClientCreated]"
    using assms by auto
  with download_era_stop [of pl wld out_dir date subs LOS h ow]
  obtain d req' fp' where ok: "cdsapirc pl \<in> existing wld" "client_init pl = None" "resolve pl out_dir \<in> existing wld"
      "as_timestamp pl date = Some d" "ts_less d (now wld)" "1939 < year d"
      "subset_block pl subs LOS (base_indict d h)
         (joinpath (resolve pl out_dir) (era_name d)) = Inr (req', fp')"
    by blast
  from assms have "req = req' \<and> fp = fp' \<and> ds = ''reanalysis-era5-pressure-levels'' \<and> (fp \<notin> existing wld \<or> ow)"
    by (simp add: download_era_run [OF ok] new_events_def split: if_splits)
  with ok neg show False by blast
qed

lemma download_era_path:
  assumes "fst (download_era pl date out_dir subs h LOS ow wld) = Inr p"
  shows "\<exists>d. as_timestamp pl date = Some d \<and>
           p = joinpath (resolve pl out_dir)
                 (''ERA5_'' @ strftime_YmdTH00 d @
                  (if truthy subs
                   then ''_'' @ bounds_tag pl (if LOS then expand_los pl (bounds (the subs)) else bounds (the subs))
                   else '''') @ ''.nc'')"
proof -
  from download_era_Inr_D [OF assms] obtain d req where
    d: "as_timestamp pl date = Some d" and
    sb: "subset_block pl subs LOS (base_indict d h)
           (joinpath (resolve pl out_dir) (era_name d)) = Inr (req, p)"
    by blast
  show ?thesis
  proof (cases "truthy subs")
    case True
    with sb d show ?thesis
      by (auto simp add: subset_block_truthy sent_bounds_def split: option.splits)
  next
    case False
    with sb d show ?thesis
      by (simp add: subset_block_falsy era_name_def)
  qed
qed

lemma check_bounds_Some_D:
  assumes "check_bounds pl (w, s, e, n) = Some err"
  shows "(\<not> (float_less pl (float_of_int pl (- 180)) w \<and> float_less pl w (float_of_int pl 180)) \<and>
            err = AssertionError (''West bound: '' @ float_str pl w @ '' is outside of globe'')) \<or>
         (\<not> (float_less pl (float_of_int pl (- 180)) e \<and> float_less pl e (float_of_int pl 180)) \<and>
            err = AssertionError (''East bound: '' @ float_str pl e @ '' is outside of globe'')) \<or>
         (\<not> (float_less pl (float_of_int pl (- 90)) n \<and> float_less pl n (float_of_int pl 90)) \<and>
            err = AssertionError (''North bound: '' @ float_str pl n @ '' is outside of globe'')) \<or>
         (\<not> (float_less pl (float_of_int pl (- 90)) s \<and> float_less pl s (float_of_int pl 90)) \<and>
            err = AssertionError (''South bound: '' @ float_str pl s @ '' is outside of globe''))"
  using assms by (simp add: check_bounds_def split: if_splits)

lemma subset_block_Inl_D:
  assumes "subset_block pl subs LOS req fp = Inl err"
  shows "truthy subs \<and> check_bounds pl (bounds (the subs)) = Some err"
  using assms by (simp add: subset_block_def Let_def split: if_splits option.splits)

lemma download_era_failed_check:
  assumes "fst (download_era pl date out_dir subs h LOS ow wld) = Inl (AssertionError m)"
    and "cdsapirc pl \<in> existing wld" "client_init pl = None" "resolve pl out_dir \<in> existing wld"
    and "as_timestamp pl date = Some d" "ts_less d (now wld)" "1939 < year d"
  shows "subset_block pl subs LOS (base_indict d h)
            (joinpath (resolve pl out_dir) (era_name d)) = Inl (AssertionError m)"
proof (cases "subset_block pl subs LOS (base_indict d h)
            (joinpath (resolve pl out_dir) (era_name d))")
  case (Inl err)
  with assms show ?thesis by (simp add: download_era_def Let_def)
next
  case (Inr rp)
  obtain req fp where "rp = (req, fp)" by (cases rp)
  with Inr assms(1) download_era_run [OF assms(2-7), of subs LOS h req fp ow]
  show ?thesis by (simp split: if_splits option.splits)
qed

lemma check_bounds_first:
  assumes "\<not> (float_less pl (float_of_int pl (- 180)) w \<and> float_less pl w (float_of_int pl 180)) \<or> \<not> (float_less pl (float_of_int pl (- 180)) e \<and> float_less pl e (float_of_int pl 180)) \<or>
           \<not> (float_less pl (float_of_int pl (- 90)) n \<and> float_less pl n (float_of_int pl 90)) \<or> \<not> (float_less pl (float_of_int pl (- 90)) s \<and> float_less pl s (float_of_int pl 90))"
  shows "\<exists>err. check_bounds pl (w, s, e, n) = Some err"
  using assms by (auto simp add: check_bounds_def)

lemma download_era_bounds_refused:
  assumes "cdsapirc pl \<in> existing wld" "client_init pl = None" "resolve pl out_dir \<in> existing wld"
    "as_timestamp pl date = Some d" "ts_less d (now wld)" "1939 < year d"
    "truthy subs" "check_bounds pl (bounds (the subs)) = Some err"
  shows "download_era pl date out_dir subs h LOS ow wld =
           (Inl err, wld\<lparr>events := events wld @ [ClientCreated]\<rparr>)"
  using assms by (simp add: download_era_def Let_def subset_block_def)

lemma era_pressure_lvls_numbers:
  "era_pressure_lvls =
     map str_nat [1, 2, 3, 5, 7, 10, 20, 30, 50, 70, 100, 125, 150, 175, 200, 225, 250, 300, 350, 400,
       450, 500, 550, 600, 650, 700, 750, 775, 800, 825, 850, 875, 900, 925, 950, 975, 1000]"
  by (simp add: era_pressure_lvls_def render)

lemma subset_block_request:
  assumes "subset_block pl subs LOS (base_indict d h) (joinpath dir (era_name d)) = Inr (req, fp)"
  shows "req = base_indict d h @
           (if truthy subs
            then [(''area'', Str (area_str pl (if LOS then expand_los pl (bounds (the subs)) else bounds (the subs))))]
            else [])"
proof (cases "truthy subs")
  case True
  with assms show ?thesis
    by (auto simp add: subset_block_truthy sent_bounds_def split: option.splits)
next
  case False
  with assms show ?thesis by (simp add: subset_block_falsy)
qed

lemma subset_block_other_request:
  "subset_block pl subs LOS req fp =
     (case subset_block pl subs LOS req' fp of
        Inl err \<Rightarrow> Inl err
      | Inr (r, p) \<Rightarrow>
          Inr (if truthy subs
               then AList.update ''area'' (Str (area_str pl (sent_bounds pl LOS (bounds (the subs))))) req
               else req, p))"
  by (simp add: subset_block_def Let_def split: option.splits)

lemma download_era_other_humidity:
  assumes "fst (download_era pl date out_dir subs h LOS ow wld) = Inl err"
    and "\<forall>msg. err \<noteq> RetrievalError msg"
  shows "fst (download_era pl date out_dir subs h' LOS ow wld) = Inl err"
proof (cases "cdsapirc pl \<in> existing wld \<and> client_init pl = None \<and> resolve pl out_dir \<in> existing wld")
  case False
  with assms(1) show ?thesis
    by (auto simp add: download_era_def Let_def split: if_splits option.splits)
next
  case files: True
  show ?thesis
  proof (cases "as_timestamp pl date")
    case None
    with files assms(1) show ?thesis by (simp add: download_era_def Let_def)
  next
    case (Some d)
    show ?thesis
    proof (cases "ts_less d (now wld) \<and> 1939 < year d")
      case False
      with files Some assms(1) show ?thesis
        by (auto simp add: download_era_def Let_def split: if_splits)
    next
      case True
      show ?thesis
      proof (cases "subset_block pl subs LOS (base_indict d h)
                      (joinpath (resolve pl out_dir) (era_name d))")
        case (Inl e)
        with files Some True assms(1) have "e = err"
          by (simp add: download_era_def Let_def)
        with Inl have "subset_block pl subs LOS (base_indict d h')
                      (joinpath (resolve pl out_dir) (era_name d)) = Inl err"
          by (simp add: subset_block_other_request [of _ _ _ "base_indict d h'" _ "base_indict d h"])
        with files Some True show ?thesis
          by (simp add: download_era_def Let_def)
      next
        case (Inr rp)
        obtain req fp where "rp = (req, fp)" by (cases rp)
        with Inr files Some True
        have "fst (download_era pl date out_dir subs h LOS ow wld) = Inr fp \<or>
              (\<exists>msg. fst (download_era pl date out_dir subs h LOS ow wld) = Inl (RetrievalError msg))"
          using download_era_run [of pl wld out_dir date d subs LOS h req fp ow]
          by (auto split: option.splits)
        with assms show ?thesis by auto
      qed
    qed
  qed
qed

section \<open>The examples, evaluated\<close>

lemma frac_digits_zero: "frac_digits (numeral k) 0 = []"
  by (simp add: numeral_eq_Suc)

lemma ex_ops:
  "cdsapirc ex_platform = ex_rc" "client_init ex_platform = None" "resolve ex_platform p = p"
  "to_datetime ex_platform s = (if s = ''2020-01-01 05:30'' then Some ex_date else None)"
  "retrieve ex_platform ds req target fs = (None, insert target fs)"
  "float_of_int ex_platform i = real_of_int i" "float_less ex_platform x y = (x < y)"
  "float_sub ex_platform x y = x - y" "float_add ex_platform x y = x + y"
  "float_abs ex_platform x = \<bar>x\<bar>" "float_max ex_platform x y = max x y"
  "float_min ex_platform x y = min x y"
  "float_str ex_platform = float_repr" "format_2f ex_platform = two_decimals"
  by (simp_all add: ex_platform_def)

lemma ex_bounds: "bounds ex_box = (- 10, - 5, 10, 5)"
  by (simp add: ex_box_def)

lemma ex_truthy: "truthy (Some ex_box)"
  by (simp add: truthy_def ex_box_def)

lemma ex_check_bounds: "check_bounds ex_platform (- 10, - 5, 10, 5) = None"
  by (simp add: check_bounds_def ex_ops)

lemma ex_expand_los: "expand_los ex_platform (- 10, - 5, 10, 5) = (- 30, - 15, 50, 25)"
  by (simp add: expand_los_def ex_ops)

lemma ex_tag_expanded: "bounds_tag ex_platform (- 30, - 15, 50, 25) = ''-30.00_-15.00_50.00_25.00''"
  by (simp add: bounds_tag_def ex_ops two_decimals_def round_half_even_def render)

lemma ex_tag_original: "bounds_tag ex_platform (- 10, - 5, 10, 5) = ''-10.00_-5.00_10.00_5.00''"
  by (simp add: bounds_tag_def ex_ops two_decimals_def round_half_even_def render)

lemma ex_area_expanded: "area_str ex_platform (- 30, - 15, 50, 25) = ''25.0/-30.0/-15.0/50.0''"
  by (simp add: area_str_def ex_ops float_repr_def render frac_digits_zero)

lemma ex_area_original: "area_str ex_platform (- 10, - 5, 10, 5) = ''5.0/-10.0/-5.0/10.0''"
  by (simp add: area_str_def ex_ops float_repr_def render frac_digits_zero)

lemma ex_stamp: "strftime_YmdTH00 ex_date = ''2020-01-01T05:00''"
  by (simp add: strftime_YmdTH00_def strftime_Ymd_def strftime_H00_def ex_date_def stamp_def render)

lemma ex_past: "ts_less ex_date (now ex_world)"
  by (simp add: ts_less_def ts_key_def ex_date_def stamp_def ex_world_def)

lemma ex_year: "1939 < year ex_date"
  by (simp add: ex_date_def stamp_def)

lemma ex_files:
  "cdsapirc ex_platform \<in> existing ex_world" "client_init ex_platform = None"
  "resolve ex_platform ex_dir \<in> existing ex_world"
  by (simp_all add: ex_ops ex_world_def)

lemma ex_as_timestamp: "as_timestamp ex_platform (DateTs t) = Some t"
  by (simp add: as_timestamp_def)

lemma ex_parsed: "as_timestamp ex_platform (DateStr ''2020-01-01 05:30'') = Some ex_date"
  by (simp add: as_timestamp_def ex_ops)

lemma ex_subset_block:
  "subset_block ex_platform (Some ex_box) LOS (base_indict ex_date h) (joinpath ex_dir (era_name ex_date)) =
     Inr (base_indict ex_date h @
            [(''area'', Str (if LOS then ''25.0/-30.0/-15.0/50.0'' else ''5.0/-10.0/-5.0/10.0''))],
          Path [''/'', ''data'',
            if LOS then ''ERA5_2020-01-01T05:00_-30.00_-15.00_50.00_25.00.nc''
            else ''ERA5_2020-01-01T05:00_-10.00_-5.00_10.00_5.00.nc''])"
  by (simp only: subset_block_truthy [OF ex_truthy])
     (simp add: ex_bounds ex_check_bounds sent_bounds_def
      ex_expand_los ex_tag_expanded ex_tag_original ex_area_expanded ex_area_original ex_stamp
      joinpath_def ex_dir_def)

lemma ex_run_any:
  assumes "as_timestamp ex_platform date = Some ex_date"
  shows "download_era ex_platform date ex_dir (Some ex_box) h LOS ow ex_world =
     (Inr (Path [''/'', ''data'',
             if LOS then ''ERA5_2020-01-01T05:00_-30.00_-15.00_50.00_25.00.nc''
             else ''ERA5_2020-01-01T05:00_-10.00_-5.00_10.00_5.00.nc'']),
      ex_world\<lparr>existing := insert (Path [''/'', ''data'',
             if LOS then ''ERA5_2020-01-01T05:00_-30.00_-15.00_50.00_25.00.nc''
             else ''ERA5_2020-01-01T05:00_-10.00_-5.00_10.00_5.00.nc'']) (existing ex_world),
        events := [ClientCreated, Retrieve ''reanalysis-era5-pressure-levels''
          (base_indict ex_date h @
            [(''area'', Str (if LOS then ''25.0/-30.0/-15.0/50.0'' else ''5.0/-10.0/-5.0/10.0''))])
          (Path [''/'', ''data'',
             if LOS then ''ERA5_2020-01-01T05:00_-30.00_-15.00_50.00_25.00.nc''
             else ''ERA5_2020-01-01T05:00_-10.00_-5.00_10.00_5.00.nc''])]\<rparr>)"
proof -
  have sb: "subset_block ex_platform (Some ex_box) LOS (base_indict ex_date h)
       (joinpath (resolve ex_platform ex_dir) (era_name ex_date)) = 
     Inr (base_indict ex_date h @
            [(''area'', Str (if LOS then ''25.0/-30.0/-15.0/50.0'' else ''5.0/-10.0/-5.0/10.0''))],
          Path [''/'', ''data'',
            if LOS then ''ERA5_2020-01-01T05:00_-30.00_-15.00_50.00_25.00.nc''
            else ''ERA5_2020-01-01T05:00_-10.00_-5.00_10.00_5.00.nc''])"
    using ex_subset_block [of LOS h] by (simp add: ex_ops)
  show ?thesis
    by (simp add: download_era_run [OF ex_files assms ex_past ex_year sb])
       (simp add: ex_ops ex_world_def ex_rc_def ex_dir_def)
qed

lemmas ex_run = ex_run_any [OF ex_as_timestamp]

lemmas ex_run_parsed = ex_run_any [OF ex_parsed]

lemma ex_run_whole:
  "download_era ex_platform (DateTs ex_date) ex_dir None h LOS ow ex_world =
     (Inr (Path [''/'', ''data'', ''ERA5_2020-01-01T05:00.nc'']),
      ex_world\<lparr>existing := insert (Path [''/'', ''data'', ''ERA5_2020-01-01T05:00.nc'']) (existing ex_world),
        events := [ClientCreated, Retrieve ''reanalysis-era5-pressure-levels'' (base_indict ex_date h)
          (Path [''/'', ''data'', ''ERA5_2020-01-01T05:00.nc''])]\<rparr>)"
proof -
  have sb: "subset_block ex_platform None LOS (base_indict ex_date h)
       (joinpath (resolve ex_platform ex_dir) (era_name ex_date)) =
     Inr (base_indict ex_date h, Path [''/'', ''data'', ''ERA5_2020-01-01T05:00.nc''])"
    by (simp add: subset_block_falsy truthy_def era_name_def ex_stamp joinpath_def ex_ops ex_dir_def)
  have ts: "as_timestamp ex_platform (DateTs ex_date) = Some ex_date"
    by (simp add: as_timestamp_def)
  show ?thesis
    by (simp add: download_era_run [OF ex_files ts ex_past ex_year sb])
       (simp add: ex_ops ex_world_def ex_rc_def ex_dir_def)
qed

lemma ex_run_whole_at:
  assumes "ts_less d (now ex_world)" "1939 < year d"
  shows "download_era ex_platform (DateTs d) ex_dir None h LOS ow ex_world =
     (Inr (joinpath ex_dir (era_name d)),
      ex_world\<lparr>existing := insert (joinpath ex_dir (era_name d)) (existing ex_world),
        events := [ClientCreated, Retrieve ''reanalysis-era5-pressure-levels'' (base_indict d h)
          (joinpath ex_dir (era_name d))]\<rparr>)"
proof -
  have sb: "subset_block ex_platform None LOS (base_indict d h)
       (joinpath (resolve ex_platform ex_dir) (era_name d)) =
     Inr (base_indict d h, joinpath ex_dir (era_name d))"
    by (simp add: subset_block_falsy truthy_def ex_ops)
  have ts: "as_timestamp ex_platform (DateTs d) = Some d"
    by (simp add: as_timestamp_def)
  show ?thesis
    by (simp add: download_era_run [OF ex_files ts assms sb])
       (simp add: ex_ops ex_world_def ex_rc_def ex_dir_def joinpath_def)
qed

lemma ex_names_1940:
  "era_name date_1940_01_01 = ''ERA5_1940-01-01T00:00.nc''"
  "era_name date_1940_01_02 = ''ERA5_1940-01-02T00:00.nc''"
  by (simp_all add: era_name_def strftime_YmdTH00_def strftime_Ymd_def strftime_H00_def
      date_1940_01_01_def date_1940_01_02_def stamp_def render)

lemma ex_dates_past:
  "ts_less date_1939_12_31 (now ex_world)" "ts_less date_1940_01_01 (now ex_world)"
  "ts_less date_1940_01_02 (now ex_world)" "\<not> ts_less (now ex_world) (now ex_world)"
  by (simp_all add: ts_less_def ts_key_def date_1939_12_31_def date_1940_01_01_def
      date_1940_01_02_def stamp_def ex_world_def)

lemma ex_dates_year:
  "year date_1939_12_31 = 1939" "year date_1940_01_01 = 1940" "year date_1940_01_02 = 1940"
  by (simp_all add: date_1939_12_31_def date_1940_01_01_def date_1940_01_02_def stamp_def)

lemma ex_edge_bounds:
  "bounds ex_box_east = (170, 10, 180, 20)" "bounds ex_box_south = (0, - 90, 10, - 80)"
  "\<not> is_empty ex_box_east" "\<not> is_empty ex_box_south"
  by (simp_all add: ex_box_east_def ex_box_south_def)

lemma ex_edge_repr: "float_repr 180 = ''180.0''" "float_repr (- 90) = ''-90.0''"
  by (simp_all add: float_repr_def render frac_digits_zero)


text \<open>With a credentials file that the client refuses, line 26 raises.\<close>

lemma ex_run_bad_rc:
  "download_era ex_platform_bad_rc date ex_dir subs h LOS ow ex_world =
     (Inl (ClientError ''Missing/incomplete configuration file''), ex_world)"
  by (simp add: download_era_def ex_platform_bad_rc_def ex_platform_def ex_world_def)

section \<open>The claims\<close>

text \<open>
  Claim C1: with a subset and the line-of-sight flag, the area of the request is the
  subset's box moved out by its own width and height, each side clamped to the globe.
  The theorem states what lines 73 to 76 compute, in the float arithmetic of the
  platform: the west and south sides move by the width \<open>|e - w|\<close> and the height
  \<open>|n - s|\<close> of the subset, but the east side moves by \<open>|e - w'|\<close> and the north side by
  \<open>|n - s'|\<close>, where \<open>w'\<close> and \<open>s'\<close> are the west and south sides already moved. For the
  box \<open>w = -10\<close>, \<open>s = -5\<close>, \<open>e = 10\<close>, \<open>n = 5\<close> the request asks for \<open>25/-30/-15/50\<close> (north, west, south, east), not \<open>15/-30/-15/30\<close>.
\<close>

theorem los_area_as_computed:
  assumes "Retrieve ds req fp \<in>
             set (new_events wld (snd (download_era pl date out_dir (Some g) h True ow wld)))"
    and "\<not> is_empty g" and "bounds g = (w, s, e, n)"
  shows "map_of req ''area'' =
     Some (Str
       (let w' = float_max pl (float_sub pl w (float_abs pl (float_sub pl e w))) (float_of_int pl (- 180));
            e' = float_min pl (float_add pl e (float_abs pl (float_sub pl e w'))) (float_of_int pl 180);
            s' = float_max pl (float_sub pl s (float_abs pl (float_sub pl n s))) (float_of_int pl (- 90));
            n' = float_min pl (float_add pl n (float_abs pl (float_sub pl n s'))) (float_of_int pl 90)
        in float_str pl n' @ ''/'' @ float_str pl w' @ ''/'' @ float_str pl s' @ ''/'' @
           float_str pl e'))"
proof -
  from retrieve_sent_D [OF assms(1)] obtain d where
    sb: "subset_block pl (Some g) True (base_indict d h)
           (joinpath (resolve pl out_dir) (era_name d)) = Inr (req, fp)"
    by blast
  have t: "truthy (Some g)" using assms(2) by (simp add: truthy_def)
  from sb have "req = base_indict d h @
      [(''area'', Str (area_str pl (sent_bounds pl True (bounds g))))]"
    by (simp add: subset_block_truthy [OF t] split: option.splits)
  then show ?thesis
    by (simp add: assms(3) sent_bounds_def expand_los_def area_str_def Let_def base_indict_def)
qed

theorem los_area_as_computed_witness:
  "Retrieve ''reanalysis-era5-pressure-levels''
     (base_indict ex_date ''specific_humidity'' @ [(''area'', Str ''25.0/-30.0/-15.0/50.0'')])
     (Path [''/'', ''data'', ''ERA5_2020-01-01T05:00_-30.00_-15.00_50.00_25.00.nc''])
     \<in> set (new_events ex_world (snd (download_era ex_platform (DateTs ex_date) ex_dir (Some ex_box)
            ''specific_humidity'' True False ex_world))) \<and>
   \<not> is_empty ex_box \<and> bounds ex_box = (- 10, - 5, 10, 5) \<and>
   map_of (base_indict ex_date ''specific_humidity'' @ [(''area'', Str ''25.0/-30.0/-15.0/50.0'')]) ''area'' =
     Some (Str (float_str ex_platform 25 @ ''/'' @ float_str ex_platform (- 30) @ ''/'' @
                float_str ex_platform (- 15) @ ''/'' @ float_str ex_platform 50))"
proof -
  have sent: "Retrieve ''reanalysis-era5-pressure-levels''
     (base_indict ex_date ''specific_humidity'' @ [(''area'', Str ''25.0/-30.0/-15.0/50.0'')])
     (Path [''/'', ''data'', ''ERA5_2020-01-01T05:00_-30.00_-15.00_50.00_25.00.nc''])
     \<in> set (new_events ex_world (snd (download_era ex_platform (DateTs ex_date) ex_dir (Some ex_box)
            ''specific_humidity'' True False ex_world)))"
    by (simp add: ex_run new_events_def) (simp add: ex_world_def)
  have ne: "\<not> is_empty ex_box" by (simp add: ex_box_def)
  show ?thesis
    using los_area_as_computed [OF sent ne ex_bounds] sent ne ex_bounds by (simp add: ex_ops)
qed

text \<open>
  Claim C2: two calls that differ only in the humidity variable and the line-of-sight flag
  return the same path. As stated the claim fails: with a subset, the flag changes the
  bounds in the file name.
\<close>

theorem output_path_los_counterexample:
  "fst (download_era ex_platform (DateTs ex_date) ex_dir (Some ex_box) ''specific_humidity'' True False ex_world) \<noteq>
   fst (download_era ex_platform (DateTs ex_date) ex_dir (Some ex_box) ''specific_humidity'' False False ex_world)"
  by (simp add: ex_run)

text \<open>
  Claim C2, amended: two calls in the same world with the same date, directory, subset and
  overwrite flag that both return a path return the same path whenever they agree on the
  line-of-sight flag or have no subset (none, or an empty one); the humidity variable
  never changes the path.
\<close>

theorem output_path_ignores_humidity:
  assumes "fst (download_era pl date out_dir subs h1 LOS1 ow wld) = Inr p1"
    and "fst (download_era pl date out_dir subs h2 LOS2 ow wld) = Inr p2"
    and "LOS1 = LOS2 \<or> \<not> truthy subs"
  shows "p1 = p2"
  using download_era_path [OF assms(1)] download_era_path [OF assms(2)] assms(3)
  by auto

theorem output_path_ignores_humidity_witness:
  "fst (download_era ex_platform (DateTs ex_date) ex_dir (Some ex_box) ''specific_humidity'' True False ex_world) =
     Inr (Path [''/'', ''data'', ''ERA5_2020-01-01T05:00_-30.00_-15.00_50.00_25.00.nc'']) \<and>
   fst (download_era ex_platform (DateTs ex_date) ex_dir (Some ex_box) ''relative_humidity'' True False ex_world) =
     Inr (Path [''/'', ''data'', ''ERA5_2020-01-01T05:00_-30.00_-15.00_50.00_25.00.nc'']) \<and>
   fst (download_era ex_platform (DateTs ex_date) ex_dir None ''specific_humidity'' False False ex_world) =
   fst (download_era ex_platform (DateTs ex_date) ex_dir None ''relative_humidity'' True False ex_world)"
proof -
  have a: "fst (download_era ex_platform (DateTs ex_date) ex_dir (Some ex_box) ''specific_humidity''
              True False ex_world) =
     Inr (Path [''/'', ''data'', ''ERA5_2020-01-01T05:00_-30.00_-15.00_50.00_25.00.nc''])"
    by (simp add: ex_run)
  have b: "fst (download_era ex_platform (DateTs ex_date) ex_dir (Some ex_box) ''relative_humidity''
              True False ex_world) =
     Inr (Path [''/'', ''data'', ''ERA5_2020-01-01T05:00_-30.00_-15.00_50.00_25.00.nc''])"
    by (simp add: ex_run)
  have c1: "fst (download_era ex_platform (DateTs ex_date) ex_dir None ''specific_humidity''
               False False ex_world) = Inr (Path [''/'', ''data'', ''ERA5_2020-01-01T05:00.nc''])"
    by (simp add: ex_run_whole)
  have c2: "fst (download_era ex_platform (DateTs ex_date) ex_dir None ''relative_humidity''
               True False ex_world) = Inr (Path [''/'', ''data'', ''ERA5_2020-01-01T05:00.nc''])"
    by (simp add: ex_run_whole)
  have "\<not> truthy None" by (simp add: truthy_def)
  then show ?thesis
    using output_path_ignores_humidity [OF a b] output_path_ignores_humidity [OF c1 c2] a b c1 c2
    by simp
qed




text \<open>
  Claim C4: a timestamp at or after the current moment raises, and so does every
  timestamp that is not strictly later than 1 January 1940. As stated the claim fails at
  the boundary: line 47 compares the year only (\<^verbatim>\<open>date.year > 1939\<close>), so midnight of
  1 January 1940 itself is accepted. The message of the assertion says the same: a date
  is refused when it is before January 1940.
\<close>

theorem date_on_first_of_january_1940_counterexample:
  "fst (download_era ex_platform (DateTs date_1940_01_01) ex_dir None ''specific_humidity''
          False False ex_world) =
     Inr (Path [''/'', ''data'', ''ERA5_1940-01-01T00:00.nc'']) \<and>
   date_1940_01_01 =
     \<lparr>year = 1940, month = 1, day = 1, hour = 0, minute = 0, second = 0, nanosecond = 0\<rparr>"
  by (simp add: ex_run_whole_at ex_dates_past ex_dates_year ex_names_1940)
     (simp add: joinpath_def ex_dir_def date_1940_01_01_def stamp_def)

text \<open>
  Claim C4, amended: a timestamp (given, or parsed from the string given) that is not
  strictly earlier than the current moment, or whose year is 1939 or earlier, makes the
  call raise, with the file system as it was and no retrieval asked for. The checks of
  lines 25 to 35 come first: when the credentials file exists, the client of line 26 is
  constructed without raising and the directory exists, the exception is the assertion of
  line 46 ("provided date is in the future"), or else that of line 47 ("provided date is
  before january 1940"). A timestamp earlier than the current moment whose year is 1940
  or later, 1 January 1940 included, fails neither assertion. So 1939-12-31 raises and
  1940-01-02 does not.
\<close>

theorem date_range_checked:
  assumes "(case date of DateStr s \<Rightarrow> to_datetime pl s | DateTs t \<Rightarrow> Some t) = Some d"
  shows "(\<not> ts_less d (now wld) \<or> year d \<le> 1939 \<longrightarrow>
            isl (fst (download_era pl date out_dir subs h LOS ow wld)) \<and>
            existing (snd (download_era pl date out_dir subs h LOS ow wld)) = existing wld \<and>
            (\<forall>ds req fp. Retrieve ds req fp \<notin>
               set (new_events wld (snd (download_era pl date out_dir subs h LOS ow wld))))) \<and>
         (cdsapirc pl \<in> existing wld \<and> client_init pl = None \<and>
          resolve pl out_dir \<in> existing wld \<and> \<not> ts_less d (now wld) \<longrightarrow>
            fst (download_era pl date out_dir subs h LOS ow wld) =
              Inl (AssertionError ''provided date is in the future'')) \<and>
         (cdsapirc pl \<in> existing wld \<and> client_init pl = None \<and>
          resolve pl out_dir \<in> existing wld \<and> ts_less d (now wld) \<and> year d \<le> 1939 \<longrightarrow>
            fst (download_era pl date out_dir subs h LOS ow wld) =
              Inl (AssertionError ''provided date is before january 1940'')) \<and>
         (ts_less d (now wld) \<and> 1940 \<le> year d \<longrightarrow>
            fst (download_era pl date out_dir subs h LOS ow wld) \<noteq>
              Inl (AssertionError ''provided date is in the future'') \<and>
            fst (download_era pl date out_dir subs h LOS ow wld) \<noteq>
              Inl (AssertionError ''provided date is before january 1940''))"
proof -
  let ?r = "download_era pl date out_dir subs h LOS ow wld"
  from assms have ts: "as_timestamp pl date = Some d"
    by (simp add: as_timestamp_def)
  have c1: "isl (fst ?r) \<and> existing (snd ?r) = existing wld \<and>
            (\<forall>ds req fp. Retrieve ds req fp \<notin> set (new_events wld (snd ?r)))"
    if out: "\<not> ts_less d (now wld) \<or> year d \<le> 1939"
  proof -
    have "\<not> (cdsapirc pl \<in> existing wld \<and> client_init pl = None \<and> resolve pl out_dir \<in> existing wld \<and>
       (\<exists>d. as_timestamp pl date = Some d \<and> ts_less d (now wld) \<and> 1939 < year d \<and>
          (\<exists>req fp. subset_block pl subs LOS (base_indict d h)
              (joinpath (resolve pl out_dir) (era_name d)) = Inr (req, fp))))"
      using out ts by auto
    from download_era_stop [OF this, of ow] show ?thesis by auto
  qed
  have c2: "fst ?r = Inl (AssertionError ''provided date is in the future'')"
    if "cdsapirc pl \<in> existing wld \<and> client_init pl = None \<and>
        resolve pl out_dir \<in> existing wld \<and> \<not> ts_less d (now wld)"
    using that ts by (simp add: download_era_def Let_def)
  have c3: "fst ?r = Inl (AssertionError ''provided date is before january 1940'')"
    if "cdsapirc pl \<in> existing wld \<and> client_init pl = None \<and>
        resolve pl out_dir \<in> existing wld \<and> ts_less d (now wld) \<and> year d \<le> 1939"
    using that ts by (simp add: download_era_def Let_def)
  have c4: "m \<noteq> ''provided date is in the future'' \<and> m \<noteq> ''provided date is before january 1940''"
    if ok: "ts_less d (now wld) \<and> 1940 \<le> year d" and r: "fst ?r = Inl (AssertionError m)" for m
  proof (cases "cdsapirc pl \<in> existing wld")
    case False
    with r show ?thesis by (auto simp add: download_era_def)
  next
    case rc: True
    show ?thesis
    proof (cases "client_init pl")
      case (Some msg)
      with r rc show ?thesis by (simp add: download_era_def)
    next
      case cl: None
      show ?thesis
      proof (cases "resolve pl out_dir \<in> existing wld")
        case False
        with r rc cl show ?thesis by (auto simp add: download_era_def Let_def)
      next
        case True
        from ok have y: "1939 < year d" and p: "ts_less d (now wld)" by simp_all
        from subset_block_Inl_D [OF download_era_failed_check [OF r rc cl True ts p y]]
        have "check_bounds pl (bounds (the subs)) = Some (AssertionError m)" by simp
        then show ?thesis
          by (cases "bounds (the subs)") (auto dest!: check_bounds_Some_D)
      qed
    qed
  qed
  from c1 c2 c3 c4 show ?thesis by blast
qed

theorem date_range_checked_witness:
  "fst (download_era ex_platform (DateTs date_1939_12_31) ex_dir None ''specific_humidity''
          False False ex_world) = Inl (AssertionError ''provided date is before january 1940'') \<and>
   fst (download_era ex_platform (DateTs (now ex_world)) ex_dir None ''specific_humidity''
          False False ex_world) = Inl (AssertionError ''provided date is in the future'') \<and>
   fst (download_era ex_platform (DateTs date_1940_01_02) ex_dir None ''specific_humidity''
          False False ex_world) = Inr (Path [''/'', ''data'', ''ERA5_1940-01-02T00:00.nc'']) \<and>
   fst (download_era ex_platform (DateTs date_1940_01_02) ex_dir None ''specific_humidity''
          False False ex_world) \<noteq> Inl (AssertionError ''provided date is before january 1940'')"
proof -
  have ts: "(case DateTs t of DateStr s \<Rightarrow> to_datetime ex_platform s | DateTs t \<Rightarrow> Some t) = Some t" for t
    by simp
  have ok: "fst (download_era ex_platform (DateTs date_1940_01_02) ex_dir None ''specific_humidity''
          False False ex_world) = Inr (Path [''/'', ''data'', ''ERA5_1940-01-02T00:00.nc''])"
    by (simp add: ex_run_whole_at ex_dates_past ex_dates_year ex_names_1940)
       (simp add: joinpath_def ex_dir_def)
  show ?thesis
    using date_range_checked [OF ts, of date_1939_12_31 ex_world ex_dir None
            "''specific_humidity''" False False]
          date_range_checked [OF ts, of "now ex_world" ex_world ex_dir None
            "''specific_humidity''" False False]
          date_range_checked [OF ts, of date_1940_01_02 ex_world ex_dir None
            "''specific_humidity''" False False]
          ok ex_files
    by (simp add: ex_dates_past ex_dates_year)
qed



text \<open>
  Claim C6: with a subset that is not empty, once the credentials file is found, the client
  of line 26 is constructed and the directory and date checks have passed, a west or east
  bound that is not both above -180 and below 180, or a north or south bound that is not
  both above -90 and below 90 (the comparisons being Python's on floats), makes the call
  raise the assertion that names a bound that is out of range, with that bound's value
  (the first one in the order west, east, north, south); nothing is retrieved. The
  comparisons are strict: 180 and -90 themselves are refused (the witness).
\<close>

theorem bounds_outside_globe_refused:
  assumes "cdsapirc pl \<in> existing wld" "client_init pl = None" "resolve pl out_dir \<in> existing wld"
    "(case date of DateStr s \<Rightarrow> to_datetime pl s | DateTs t \<Rightarrow> Some t) = Some d"
    "ts_less d (now wld)" "1939 < year d"
    and "\<not> is_empty g" and "bounds g = (w, s, e, n)"
    and "\<not> (float_less pl (float_of_int pl (- 180)) w \<and> float_less pl w (float_of_int pl 180)) \<or>
         \<not> (float_less pl (float_of_int pl (- 180)) e \<and> float_less pl e (float_of_int pl 180)) \<or>
         \<not> (float_less pl (float_of_int pl (- 90)) n \<and> float_less pl n (float_of_int pl 90)) \<or>
         \<not> (float_less pl (float_of_int pl (- 90)) s \<and> float_less pl s (float_of_int pl 90))"
  shows "(\<exists>(nm, v, lim) \<in> set [(''West'', w, 180), (''East'', e, 180), (''North'', n, 90), (''South'', s, 90)].
            \<not> (float_less pl (float_of_int pl (- lim)) v \<and> float_less pl v (float_of_int pl lim)) \<and>
            fst (download_era pl date out_dir (Some g) h LOS ow wld) =
              Inl (AssertionError (nm @ '' bound: '' @ float_str pl v @ '' is outside of globe''))) \<and>
         existing (snd (download_era pl date out_dir (Some g) h LOS ow wld)) = existing wld \<and>
         new_events wld (snd (download_era pl date out_dir (Some g) h LOS ow wld)) = [ClientCreated]"
proof -
  from assms(4) have ts: "as_timestamp pl date = Some d"
    by (simp add: as_timestamp_def)
  from check_bounds_first [OF assms(9)] obtain err where
    err: "check_bounds pl (w, s, e, n) = Some err" by blast
  have t: "truthy (Some g)" using assms(7) by (simp add: truthy_def)
  have run: "download_era pl date out_dir (Some g) h LOS ow wld =
           (Inl err, wld\<lparr>events := events wld @ [ClientCreated]\<rparr>)"
    using download_era_bounds_refused [OF assms(1-3) ts assms(5,6) t, of err] err assms(8) by simp
  from check_bounds_Some_D [OF err] show ?thesis
    by (auto simp add: run new_events_def)
qed

theorem bounds_outside_globe_refused_witness:
  "bounds ex_box_east = (170, 10, 180, 20) \<and> bounds ex_box_south = (0, - 90, 10, - 80) \<and>
   fst (download_era ex_platform (DateTs ex_date) ex_dir (Some ex_box_east) ''specific_humidity''
          False False ex_world) =
     Inl (AssertionError ''East bound: 180.0 is outside of globe'') \<and>
   fst (download_era ex_platform (DateTs ex_date) ex_dir (Some ex_box_south) ''specific_humidity''
          False False ex_world) =
     Inl (AssertionError ''South bound: -90.0 is outside of globe'')"
proof -
  have ts: "(case DateTs ex_date of DateStr s \<Rightarrow> to_datetime ex_platform s | DateTs t \<Rightarrow> Some t) =
      Some ex_date"
    by simp
  have east:
    "\<not> (float_less ex_platform (float_of_int ex_platform (- 180)) 170 \<and>
        float_less ex_platform 170 (float_of_int ex_platform 180)) \<or>
     \<not> (float_less ex_platform (float_of_int ex_platform (- 180)) 180 \<and>
        float_less ex_platform 180 (float_of_int ex_platform 180)) \<or>
     \<not> (float_less ex_platform (float_of_int ex_platform (- 90)) 20 \<and>
        float_less ex_platform 20 (float_of_int ex_platform 90)) \<or>
     \<not> (float_less ex_platform (float_of_int ex_platform (- 90)) 10 \<and>
        float_less ex_platform 10 (float_of_int ex_platform 90))"
    by (simp add: ex_ops)
  have south:
    "\<not> (float_less ex_platform (float_of_int ex_platform (- 180)) 0 \<and>
        float_less ex_platform 0 (float_of_int ex_platform 180)) \<or>
     \<not> (float_less ex_platform (float_of_int ex_platform (- 180)) 10 \<and>
        float_less ex_platform 10 (float_of_int ex_platform 180)) \<or>
     \<not> (float_less ex_platform (float_of_int ex_platform (- 90)) (- 80) \<and>
        float_less ex_platform (- 80) (float_of_int ex_platform 90)) \<or>
     \<not> (float_less ex_platform (float_of_int ex_platform (- 90)) (- 90) \<and>
        float_less ex_platform (- 90) (float_of_int ex_platform 90))"
    by (simp add: ex_ops)
  show ?thesis
    using bounds_outside_globe_refused [OF ex_files ts ex_past ex_year
            ex_edge_bounds(3) ex_edge_bounds(1) east, of "''specific_humidity''" False False]
          bounds_outside_globe_refused [OF ex_files ts ex_past ex_year
            ex_edge_bounds(4) ex_edge_bounds(2) south, of "''specific_humidity''" False False]
    by (simp add: ex_edge_bounds ex_ops ex_edge_repr)
qed

text \<open>
  Claim C7: when a precondition fails (no credentials file, no output directory, a date
  string that does not parse, a date out of range, a bound outside the globe) the call
  raises, the file system is as it was and no retrieval has been asked of the client. The
  only call to the \<^verbatim>\<open>cdsapi\<close> library that may have happened is the construction of the
  client object (line 26), which precedes every check but that of the credentials file.
\<close>

theorem precondition_failure_has_no_effect:
  assumes "cdsapirc pl \<notin> existing wld \<or> resolve pl out_dir \<notin> existing wld \<or>
           as_timestamp pl date = None \<or>
           (\<exists>d. as_timestamp pl date = Some d \<and> (\<not> ts_less d (now wld) \<or> year d \<le> 1939)) \<or>
           (truthy subs \<and> check_bounds pl (bounds (the subs)) \<noteq> None)"
  shows "isl (fst (download_era pl date out_dir subs h LOS ow wld)) \<and>
         existing (snd (download_era pl date out_dir subs h LOS ow wld)) = existing wld \<and>
         (\<forall>ds req fp. Retrieve ds req fp \<notin>
            set (new_events wld (snd (download_era pl date out_dir subs h LOS ow wld)))) \<and>
         (new_events wld (snd (download_era pl date out_dir subs h LOS ow wld)) = [] \<or>
          new_events wld (snd (download_era pl date out_dir subs h LOS ow wld)) = [ClientCreated])"
proof -
  have "\<not> (cdsapirc pl \<in> existing wld \<and> client_init pl = None \<and> resolve pl out_dir \<in> existing wld \<and>
     (\<exists>d. as_timestamp pl date = Some d \<and> ts_less d (now wld) \<and> 1939 < year d \<and>
        (\<exists>req fp. subset_block pl subs LOS (base_indict d h)
            (joinpath (resolve pl out_dir) (era_name d)) = Inr (req, fp))))"
    using assms by (auto simp add: subset_block_def Let_def)
  from download_era_stop [OF this, of ow] show ?thesis by auto
qed

theorem precondition_failure_has_no_effect_witness:
  "isl (fst (download_era ex_platform (DateTs ex_date) ex_dir (Some ex_box) ''specific_humidity''
          False True ex_world_no_rc)) \<and>
   existing (snd (download_era ex_platform (DateTs ex_date) ex_dir (Some ex_box) ''specific_humidity''
          False True ex_world_no_rc)) = {ex_dir} \<and>
   new_events ex_world_no_rc (snd (download_era ex_platform (DateTs ex_date) ex_dir (Some ex_box)
          ''specific_humidity'' False True ex_world_no_rc)) = [] \<and>
   isl (fst (download_era ex_platform (DateTs ex_date) ex_dir (Some ex_box) ''specific_humidity''
          False True ex_world_no_dir)) \<and>
   existing (snd (download_era ex_platform (DateTs ex_date) ex_dir (Some ex_box) ''specific_humidity''
          False True ex_world_no_dir)) = {ex_rc} \<and>
   new_events ex_world_no_dir (snd (download_era ex_platform (DateTs ex_date) ex_dir (Some ex_box)
          ''specific_humidity'' False True ex_world_no_dir)) = [ClientCreated]"
proof -
  have a: "cdsapirc ex_platform \<notin> existing ex_world_no_rc"
    by (simp add: ex_ops ex_world_no_rc_def ex_rc_def ex_dir_def)
  have b: "cdsapirc ex_platform \<in> existing ex_world_no_dir"
          "resolve ex_platform ex_dir \<notin> existing ex_world_no_dir"
    by (simp_all add: ex_ops ex_world_no_dir_def ex_rc_def ex_dir_def)
  have ev_a: "new_events ex_world_no_rc (snd (download_era ex_platform (DateTs ex_date) ex_dir
          (Some ex_box) ''specific_humidity'' False True ex_world_no_rc)) = []"
    using a by (simp add: download_era_def new_events_def)
  have ev_b: "new_events ex_world_no_dir (snd (download_era ex_platform (DateTs ex_date) ex_dir
          (Some ex_box) ''specific_humidity'' False True ex_world_no_dir)) = [ClientCreated]"
    using b ex_ops(2) by (simp add: download_era_def new_events_def Let_def)
  show ?thesis
    using precondition_failure_has_no_effect [of ex_platform ex_world_no_rc ex_dir "DateTs ex_date"
            "Some ex_box" "''specific_humidity''" False True]
          precondition_failure_has_no_effect [of ex_platform ex_world_no_dir ex_dir "DateTs ex_date"
            "Some ex_box" "''specific_humidity''" False True]
          a b ev_a ev_b
    by (simp add: ex_world_no_rc_def ex_world_no_dir_def)
qed

text \<open>
  Claim C8: every request that \<open>download_era\<close> sends, for a timestamp given or parsed by
  \<^verbatim>\<open>pd.to_datetime\<close> from the string given, is for the data set
  \<^verbatim>\<open>reanalysis-era5-pressure-levels\<close> and maps \<^verbatim>\<open>product_type\<close> to \<^verbatim>\<open>reanalysis\<close>,
  \<^verbatim>\<open>format\<close> to \<^verbatim>\<open>netcdf\<close>, \<^verbatim>\<open>variable\<close> to geopotential, temperature and the chosen
  humidity variable, \<^verbatim>\<open>pressure_level\<close> to the 37 levels from 1 to 1000 millibars,
  \<^verbatim>\<open>date\<close> to year-month-day and \<^verbatim>\<open>time\<close> to the hour followed by \<^verbatim>\<open>:00\<close>, both read
  from the year, month, day and hour of the timestamp alone (minutes and below are
  dropped); with a subset that is not empty it also maps \<^verbatim>\<open>area\<close> to north, west, south
  and east, joined by a slash, of the bounds that line 79 reads (the subset's own, or with the line-of-sight flag what
  lines 73 to 76 compute in floating point), each written by \<^verbatim>\<open>str\<close>. It has no other entry.
\<close>

theorem request_mapping_built:
  assumes "Retrieve ds req fp \<in>
             set (new_events wld (snd (download_era pl date out_dir subs h LOS ow wld)))"
  shows "\<exists>d. (case date of DateStr s \<Rightarrow> to_datetime pl s | DateTs t \<Rightarrow> Some t) = Some d \<and>
           ds = ''reanalysis-era5-pressure-levels'' \<and>
           req =
             [(''product_type'', Str ''reanalysis''),
              (''format'', Str ''netcdf''),
              (''variable'', StrList [''geopotential'', ''temperature'', h]),
              (''pressure_level'', StrList (map str_nat
                 [1, 2, 3, 5, 7, 10, 20, 30, 50, 70, 100, 125, 150, 175, 200, 225, 250, 300, 350, 400,
                  450, 500, 550, 600, 650, 700, 750, 775, 800, 825, 850, 875, 900, 925, 950, 975, 1000])),
              (''date'', Str (zpad 4 (str_nat (year d)) @ ''-'' @ zpad 2 (str_nat (month d)) @ ''-'' @
                             zpad 2 (str_nat (day d)))),
              (''time'', Str (zpad 2 (str_nat (hour d)) @ '':00''))] @
             (if truthy subs
              then [(''area'',
                     Str (case (if LOS then expand_los pl (bounds (the subs)) else bounds (the subs)) of
                            (w, s, e, n) \<Rightarrow>
                              float_str pl n @ ''/'' @ float_str pl w @ ''/'' @ float_str pl s @ ''/'' @
                              float_str pl e))]
              else []) \<and>
           length era_pressure_lvls = 37"
proof -
  from retrieve_sent_D [OF assms] obtain d where
    d: "as_timestamp pl date = Some d" and ds: "ds = ''reanalysis-era5-pressure-levels''" and
    sb: "subset_block pl subs LOS (base_indict d h)
           (joinpath (resolve pl out_dir) (era_name d)) = Inr (req, fp)"
    by blast
  from d have d': "(case date of DateStr s \<Rightarrow> to_datetime pl s | DateTs t \<Rightarrow> Some t) = Some d"
    by (simp add: as_timestamp_def)
  have area: "area_str pl b = (case b of (w, s, e, n) \<Rightarrow>
      float_str pl n @ ''/'' @ float_str pl w @ ''/'' @ float_str pl s @ ''/'' @ float_str pl e)"
    for b
    by (cases b) (simp add: area_str_def)
  have len: "length era_pressure_lvls = 37"
    by (simp add: era_pressure_lvls_def)
  have base: "base_indict d h =
             [(''product_type'', Str ''reanalysis''),
              (''format'', Str ''netcdf''),
              (''variable'', StrList [''geopotential'', ''temperature'', h]),
              (''pressure_level'', StrList (map str_nat
                 [1, 2, 3, 5, 7, 10, 20, 30, 50, 70, 100, 125, 150, 175, 200, 225, 250, 300, 350, 400,
                  450, 500, 550, 600, 650, 700, 750, 775, 800, 825, 850, 875, 900, 925, 950, 975, 1000])),
              (''date'', Str (zpad 4 (str_nat (year d)) @ ''-'' @ zpad 2 (str_nat (month d)) @ ''-'' @
                             zpad 2 (str_nat (day d)))),
              (''time'', Str (zpad 2 (str_nat (hour d)) @ '':00''))]"
    unfolding base_indict_def strftime_Ymd_def strftime_H00_def era_pressure_lvls_numbers [symmetric]
    by simp
  from subset_block_request [OF sb] have "req = base_indict d h @
           (if truthy subs
            then [(''area'', Str (area_str pl
                    (if LOS then expand_los pl (bounds (the subs)) else bounds (the subs))))]
            else [])" .
  then have "req = base_indict d h @
             (if truthy subs
              then [(''area'',
                     Str (case (if LOS then expand_los pl (bounds (the subs)) else bounds (the subs)) of
                            (w, s, e, n) \<Rightarrow>
                              float_str pl n @ ''/'' @ float_str pl w @ ''/'' @ float_str pl s @ ''/'' @
                              float_str pl e))]
              else [])"
    by (simp only: area)
  with d' ds len show ?thesis
    unfolding base by blast
qed

theorem request_mapping_built_witness:
  "to_datetime ex_platform ''2020-01-01 05:30'' = Some ex_date \<and>
   ex_date = \<lparr>year = 2020, month = 1, day = 1, hour = 5, minute = 30, second = 0, nanosecond = 0\<rparr> \<and>
   Retrieve ''reanalysis-era5-pressure-levels''
     [(''product_type'', Str ''reanalysis''),
      (''format'', Str ''netcdf''),
      (''variable'', StrList [''geopotential'', ''temperature'', ''relative_humidity'']),
      (''pressure_level'', StrList
         [''1'', ''2'', ''3'', ''5'', ''7'', ''10'', ''20'', ''30'', ''50'', ''70'', ''100'', ''125'',
          ''150'', ''175'', ''200'', ''225'', ''250'', ''300'', ''350'', ''400'', ''450'', ''500'',
          ''550'', ''600'', ''650'', ''700'', ''750'', ''775'', ''800'', ''825'', ''850'', ''875'',
          ''900'', ''925'', ''950'', ''975'', ''1000'']),
      (''date'', Str ''2020-01-01''),
      (''time'', Str ''05:00''),
      (''area'', Str ''5.0/-10.0/-5.0/10.0'')]
     (Path [''/'', ''data'', ''ERA5_2020-01-01T05:00_-10.00_-5.00_10.00_5.00.nc''])
   \<in> set (new_events ex_world (snd (download_era ex_platform (DateStr ''2020-01-01 05:30'') ex_dir
            (Some ex_box) ''relative_humidity'' False False ex_world)))"
proof -
  have sent: "Retrieve ''reanalysis-era5-pressure-levels''
     (base_indict ex_date ''relative_humidity'' @ [(''area'', Str ''5.0/-10.0/-5.0/10.0'')])
     (Path [''/'', ''data'', ''ERA5_2020-01-01T05:00_-10.00_-5.00_10.00_5.00.nc''])
     \<in> set (new_events ex_world (snd (download_era ex_platform (DateStr ''2020-01-01 05:30'') ex_dir
            (Some ex_box) ''relative_humidity'' False False ex_world)))"
    by (simp add: ex_run_parsed new_events_def) (simp add: ex_world_def)
  have fields: "year ex_date = 2020" "month ex_date = 1" "day ex_date = 1" "hour ex_date = 5"
    by (simp_all add: ex_date_def stamp_def)
  have req: "base_indict ex_date ''relative_humidity'' @ [(''area'', Str ''5.0/-10.0/-5.0/10.0'')] =
     [(''product_type'', Str ''reanalysis''),
      (''format'', Str ''netcdf''),
      (''variable'', StrList [''geopotential'', ''temperature'', ''relative_humidity'']),
      (''pressure_level'', StrList
         [''1'', ''2'', ''3'', ''5'', ''7'', ''10'', ''20'', ''30'', ''50'', ''70'', ''100'', ''125'',
          ''150'', ''175'', ''200'', ''225'', ''250'', ''300'', ''350'', ''400'', ''450'', ''500'',
          ''550'', ''600'', ''650'', ''700'', ''750'', ''775'', ''800'', ''825'', ''850'', ''875'',
          ''900'', ''925'', ''950'', ''975'', ''1000'']),
      (''date'', Str ''2020-01-01''),
      (''time'', Str ''05:00''),
      (''area'', Str ''5.0/-10.0/-5.0/10.0'')]"
    using request_mapping_built [OF sent]
    by (simp add: ex_ops ex_truthy ex_bounds fields render)
  show ?thesis
    using sent by (simp add: req ex_ops) (simp add: ex_date_def stamp_def)
qed

text \<open>
  Claim C9: the humidity parameter is never validated. Whatever string is given, the call
  fails an assertion (or the parsing of the date) exactly when it does so with any other
  string, with the same message; it asks for a retrieval to the same target exactly when
  it does so with any other string; and the string is the third entry of the
  \<^verbatim>\<open>variable\<close> list of the request, as it is.
\<close>

theorem humidity_parameter_unchecked:
  "(fst (download_era pl date out_dir subs h LOS ow wld) = Inl (AssertionError m) \<longleftrightarrow>
    fst (download_era pl date out_dir subs h' LOS ow wld) = Inl (AssertionError m)) \<and>
   (fst (download_era pl date out_dir subs h LOS ow wld) = Inl DateParseError \<longleftrightarrow>
    fst (download_era pl date out_dir subs h' LOS ow wld) = Inl DateParseError) \<and>
   ((\<exists>req. Retrieve ds req fp \<in>
        set (new_events wld (snd (download_era pl date out_dir subs h LOS ow wld)))) \<longleftrightarrow>
    (\<exists>req. Retrieve ds req fp \<in>
        set (new_events wld (snd (download_era pl date out_dir subs h' LOS ow wld))))) \<and>
   (\<forall>req. Retrieve ds req fp \<in>
        set (new_events wld (snd (download_era pl date out_dir subs h LOS ow wld))) \<longrightarrow>
      map_of req ''variable'' = Some (StrList [''geopotential'', ''temperature'', h]))"
proof -
  have sent: "\<exists>req'. Retrieve ds req' fp \<in>
        set (new_events wld (snd (download_era pl date out_dir subs b LOS ow wld)))"
    if "Retrieve ds req fp \<in>
        set (new_events wld (snd (download_era pl date out_dir subs a LOS ow wld)))" for a b req
  proof -
    from retrieve_sent_D [OF that] obtain d where
      ok: "cdsapirc pl \<in> existing wld" "client_init pl = None" "resolve pl out_dir \<in> existing wld"
          "as_timestamp pl date = Some d" "ts_less d (now wld)" "1939 < year d" and
      sb: "subset_block pl subs LOS (base_indict d a)
             (joinpath (resolve pl out_dir) (era_name d)) = Inr (req, fp)" and
      ds: "ds = ''reanalysis-era5-pressure-levels''" and go: "fp \<notin> existing wld \<or> ow"
      by blast
    from sb obtain req' where sb': "subset_block pl subs LOS (base_indict d b)
             (joinpath (resolve pl out_dir) (era_name d)) = Inr (req', fp)"
      by (simp add: subset_block_other_request [of _ _ _ "base_indict d b" _ "base_indict d a"])
    from go ds show ?thesis
      by (auto simp add: download_era_run [OF ok sb'] new_events_def)
  qed
  have var: "map_of req ''variable'' = Some (StrList [''geopotential'', ''temperature'', h])"
    if "Retrieve ds req fp \<in>
        set (new_events wld (snd (download_era pl date out_dir subs h LOS ow wld)))" for req
  proof -
    from retrieve_sent_D [OF that] obtain d where
      sb: "subset_block pl subs LOS (base_indict d h)
             (joinpath (resolve pl out_dir) (era_name d)) = Inr (req, fp)"
      by blast
    from subset_block_request [OF sb] show ?thesis
      by (simp add: base_indict_def)
  qed
  have a: "fst (download_era pl date out_dir subs h LOS ow wld) = Inl (AssertionError m) \<longleftrightarrow>
    fst (download_era pl date out_dir subs h' LOS ow wld) = Inl (AssertionError m)"
    using download_era_other_humidity [of pl date out_dir subs h LOS ow wld "AssertionError m" h']
          download_era_other_humidity [of pl date out_dir subs h' LOS ow wld "AssertionError m" h]
    by auto
  have b: "fst (download_era pl date out_dir subs h LOS ow wld) = Inl DateParseError \<longleftrightarrow>
    fst (download_era pl date out_dir subs h' LOS ow wld) = Inl DateParseError"
    using download_era_other_humidity [of pl date out_dir subs h LOS ow wld DateParseError h']
          download_era_other_humidity [of pl date out_dir subs h' LOS ow wld DateParseError h]
    by auto
  from a b sent var show ?thesis by blast
qed

theorem humidity_parameter_unchecked_witness:
  "fst (download_era ex_platform (DateTs ex_date) ex_dir (Some ex_box) ''not a humidity at all''
          False False ex_world) =
     Inr (Path [''/'', ''data'', ''ERA5_2020-01-01T05:00_-10.00_-5.00_10.00_5.00.nc'']) \<and>
   Retrieve ''reanalysis-era5-pressure-levels''
     (base_indict ex_date ''not a humidity at all'' @ [(''area'', Str ''5.0/-10.0/-5.0/10.0'')])
     (Path [''/'', ''data'', ''ERA5_2020-01-01T05:00_-10.00_-5.00_10.00_5.00.nc''])
     \<in> set (new_events ex_world (snd (download_era ex_platform (DateTs ex_date) ex_dir (Some ex_box)
            ''not a humidity at all'' False False ex_world))) \<and>
   map_of (base_indict ex_date ''not a humidity at all'' @ [(''area'', Str ''5.0/-10.0/-5.0/10.0'')])
     ''variable'' = Some (StrList [''geopotential'', ''temperature'', ''not a humidity at all''])"
proof -
  have sent: "Retrieve ''reanalysis-era5-pressure-levels''
     (base_indict ex_date ''not a humidity at all'' @ [(''area'', Str ''5.0/-10.0/-5.0/10.0'')])
     (Path [''/'', ''data'', ''ERA5_2020-01-01T05:00_-10.00_-5.00_10.00_5.00.nc''])
     \<in> set (new_events ex_world (snd (download_era ex_platform (DateTs ex_date) ex_dir (Some ex_box)
            ''not a humidity at all'' False False ex_world)))"
    by (simp add: ex_run new_events_def) (simp add: ex_world_def)
  have var: "map_of (base_indict ex_date ''not a humidity at all'' @
                 [(''area'', Str ''5.0/-10.0/-5.0/10.0'')]) ''variable'' =
             Some (StrList [''geopotential'', ''temperature'', ''not a humidity at all''])"
    using humidity_parameter_unchecked [of ex_platform "DateTs ex_date" ex_dir "Some ex_box"
            "''not a humidity at all''" False False ex_world _ "''specific_humidity''"
            "''reanalysis-era5-pressure-levels''"
            "Path [''/'', ''data'', ''ERA5_2020-01-01T05:00_-10.00_-5.00_10.00_5.00.nc'']"] sent
    by blast
  show ?thesis
    using sent var by (simp add: ex_run)
qed

text \<open>
  Claim C10: a subset that is falsy (the empty polygon) is treated as no subset at all:
  the call does what it does with \<^verbatim>\<open>None\<close>, so the bounds are not checked, the request it
  sends has no \<^verbatim>\<open>area\<close> entry, and the file name has no suffix after the timestamp.
\<close>

theorem empty_subset_as_absent:
  assumes "is_empty g"
  shows "download_era pl date out_dir (Some g) h LOS ow wld =
           download_era pl date out_dir None h LOS ow wld \<and>
         (\<forall>ds req fp. Retrieve ds req fp \<in>
             set (new_events wld (snd (download_era pl date out_dir (Some g) h LOS ow wld))) \<longrightarrow>
           map_of req ''area'' = None) \<and>
         (\<forall>p. fst (download_era pl date out_dir (Some g) h LOS ow wld) = Inr p \<longrightarrow>
           (\<exists>d. as_timestamp pl date = Some d \<and>
                p = joinpath (resolve pl out_dir) (''ERA5_'' @ strftime_YmdTH00 d @ ''.nc'')))"
proof -
  have f: "\<not> truthy (Some g)" using assms by (simp add: truthy_def)
  have sb: "subset_block pl' (Some g) LOS r p = subset_block pl' None LOS r p" for pl' r p
    using f by (simp add: subset_block_falsy truthy_def)
  have same: "download_era pl date out_dir (Some g) h LOS ow wld =
           download_era pl date out_dir None h LOS ow wld"
    by (simp only: download_era_def sb)
  have area: "map_of req ''area'' = None"
    if "Retrieve ds req fp \<in>
          set (new_events wld (snd (download_era pl date out_dir (Some g) h LOS ow wld)))"
    for ds req fp
  proof -
    from retrieve_sent_D [OF that] obtain d where
      sb: "subset_block pl (Some g) LOS (base_indict d h)
             (joinpath (resolve pl out_dir) (era_name d)) = Inr (req, fp)"
      by blast
    from subset_block_request [OF sb] f show ?thesis
      by (simp add: base_indict_def)
  qed
  have nm: "\<exists>d. as_timestamp pl date = Some d \<and>
                p = joinpath (resolve pl out_dir) (''ERA5_'' @ strftime_YmdTH00 d @ ''.nc'')"
    if "fst (download_era pl date out_dir (Some g) h LOS ow wld) = Inr p" for p
    using download_era_path [OF that] f by simp
  from same area nm show ?thesis by blast
qed

theorem empty_subset_as_absent_witness:
  "is_empty ex_empty \<and>
   download_era ex_platform (DateTs ex_date) ex_dir (Some ex_empty) ''specific_humidity'' True False
     ex_world =
     (Inr (Path [''/'', ''data'', ''ERA5_2020-01-01T05:00.nc'']),
      ex_world\<lparr>existing := insert (Path [''/'', ''data'', ''ERA5_2020-01-01T05:00.nc'']) (existing ex_world),
        events := [ClientCreated, Retrieve ''reanalysis-era5-pressure-levels''
          (base_indict ex_date ''specific_humidity'') (Path [''/'', ''data'', ''ERA5_2020-01-01T05:00.nc''])]\<rparr>) \<and>
   map_of (base_indict ex_date ''specific_humidity'') ''area'' = None"
proof -
  have e: "is_empty ex_empty" by (simp add: ex_empty_def)
  have sent: "Retrieve ''reanalysis-era5-pressure-levels'' (base_indict ex_date ''specific_humidity'')
                (Path [''/'', ''data'', ''ERA5_2020-01-01T05:00.nc''])
              \<in> set (new_events ex_world (snd (download_era ex_platform (DateTs ex_date) ex_dir None
                        ''specific_humidity'' True False ex_world)))"
    by (simp add: ex_run_whole new_events_def) (simp add: ex_world_def)
  have same: "download_era ex_platform (DateTs ex_date) ex_dir (Some ex_empty) ''specific_humidity''
                True False ex_world =
              download_era ex_platform (DateTs ex_date) ex_dir None ''specific_humidity'' True False ex_world"
    using empty_subset_as_absent [OF e] by blast
  have area: "map_of (base_indict ex_date ''specific_humidity'') ''area'' = None"
    using empty_subset_as_absent [OF e, of ex_platform "DateTs ex_date" ex_dir "''specific_humidity''"
            True False ex_world] sent
    unfolding same by blast
  show ?thesis
    using e area by (simp add: same ex_run_whole)
qed

end
